theory Spec2Isabelle
  imports Complex_Main
begin

section \<open>Item nonresponse demo: missingness generators and single-value imputation\<close>

text \<open>
  The notebook \<^verbatim>\<open>item-nonresponse-demo.ipynb\<close> defines three missingness generators
  (\<^verbatim>\<open>create_mcar_column\<close>, \<^verbatim>\<open>create_mar_column\<close>, \<^verbatim>\<open>create_nmar_column\<close>), three
  single-value imputers (\<^verbatim>\<open>impute_mean\<close>, \<^verbatim>\<open>impute_median\<close>, \<^verbatim>\<open>impute_mode\<close>) and
  \<^verbatim>\<open>regression_imputation\<close>. They are embedded here as HOL functions.

  Conventions of the embedding.
  \<^item> A cell of the table is a rational number: the floating-point values of the notebook
    are read as the exact numbers they stand for, so rounding error and the value
    \<^verbatim>\<open>nan\<close> are outside the model. The table of the notebook never stores \<^verbatim>\<open>nan\<close>:
    missingness is kept in a separate indicator column.
  \<^item> A raised exception is a value \<open>Inl e\<close> of a sum type.
  \<^item> The global generator of \<^verbatim>\<open>numpy.random\<close> is an explicit state that every sampling
    function takes and returns. The generator itself is a parameter of the model.
  \<^item> The resampling loop of the generators need not end, so it is a partial function:
    the value \<open>None\<close> stands for a call that never returns.
\<close>

subsection \<open>Exceptions\<close>

datatype py_error = ValueError | KeyError | NameError | IndexError

subsection \<open>The table\<close>

text \<open>
  A \<^verbatim>\<open>pandas.DataFrame\<close> with the default index \<open>0 .. n - 1\<close>: the number of rows
  (\<^verbatim>\<open>df.shape[0]\<close>) and the named columns in their order. In a dataframe every column
  has as many entries as the index; \<open>wf_df\<close> states that.
\<close>

record dataframe =
  nrows :: nat
  columns :: "(string \<times> rat list) list"

definition wf_df :: "dataframe \<Rightarrow> bool" where
  "wf_df df = list_all (\<lambda>cx. length (snd cx) = nrows df) (columns df)"

text \<open>\<^verbatim>\<open>df[c]\<close>: the column named \<open>c\<close>, or \<^verbatim>\<open>KeyError\<close>.\<close>

definition df_col :: "dataframe \<Rightarrow> string \<Rightarrow> py_error + rat list" where
  "df_col df c = (case map_of (columns df) c of None \<Rightarrow> Inl KeyError | Some xs \<Rightarrow> Inr xs)"

text \<open>\<^verbatim>\<open>df.loc[i, c]\<close>: the cell of row label \<open>i\<close> in column \<open>c\<close>, or \<^verbatim>\<open>KeyError\<close>.\<close>

definition df_loc :: "dataframe \<Rightarrow> nat \<Rightarrow> string \<Rightarrow> py_error + rat" where
  "df_loc df i c =
     (case map_of (columns df) c of
        None \<Rightarrow> Inl KeyError
      | Some xs \<Rightarrow> if i < length xs then Inr (xs ! i) else Inl KeyError)"

text \<open>A list comprehension whose element expression may raise: the first error wins.\<close>

fun collect :: "('a \<Rightarrow> py_error + 'b) \<Rightarrow> 'a list \<Rightarrow> py_error + 'b list" where
  "collect f [] = Inr []"
| "collect f (x # xs) =
     (case f x of
        Inl e \<Rightarrow> Inl e
      | Inr y \<Rightarrow> (case collect f xs of Inl e \<Rightarrow> Inl e | Inr ys \<Rightarrow> Inr (y # ys)))"

subsection \<open>Python's \<^verbatim>\<open>round\<close>\<close>

text \<open>
  \<^verbatim>\<open>round(x)\<close> with one argument returns the nearest integer, a tie going to the even
  neighbour.
\<close>

definition py_round :: "rat \<Rightarrow> int" where
  "py_round x =
     (let f = \<lfloor>x\<rfloor>; d = x - of_int f
      in if d < 1 / 2 then f
         else if 1 / 2 < d then f + 1
         else if even f then f else f + 1)"

text \<open>\<^verbatim>\<open>round(p_missing * df.shape[0])\<close>, the number of rows a generator is asked to mark.\<close>

definition requested_count :: "dataframe \<Rightarrow> rat \<Rightarrow> int" where
  "requested_count df p_missing = py_round (p_missing * of_nat (nrows df))"

subsection \<open>The random source\<close>

text \<open>
  The part of \<^verbatim>\<open>numpy.random\<close> that \<^verbatim>\<open>DataFrame.sample\<close> uses, as a parameter:
  \<open>np_seed s\<close> is the generator state that \<^verbatim>\<open>np.random.seed(s)\<close> installs,
  \<open>np_rand\<close> draws one uniform variate, and \<open>np_perm_first n\<close> is the first entry of
  \<^verbatim>\<open>np.random.permutation(n)\<close>; the last two also return the state they leave.
\<close>

record 'g numpy_random =
  np_seed :: "int \<Rightarrow> 'g"
  np_rand :: "'g \<Rightarrow> rat \<times> 'g"
  np_perm_first :: "nat \<Rightarrow> 'g \<Rightarrow> nat \<times> 'g"

text \<open>
  \<^verbatim>\<open>np.random.seed(random_state)\<close> replaces the global state, whatever it was; an
  integer seed outside \<open>0 .. 2^32 - 1\<close> is a \<^verbatim>\<open>ValueError\<close> and leaves the state as
  it is.
\<close>

definition np_random_seed :: "'g numpy_random \<Rightarrow> int \<Rightarrow> 'g \<Rightarrow> (py_error + unit) \<times> 'g" where
  "np_random_seed R s g =
     (if 0 \<le> s \<and> s < 2 ^ 32 then (Inr (), np_seed R s) else (Inl ValueError, g))"

subsection \<open>\<^verbatim>\<open>DataFrame.sample(n = 1, weights = ...).index[0]\<close>\<close>

fun cumsum_from :: "rat \<Rightarrow> rat list \<Rightarrow> rat list" where
  "cumsum_from acc [] = []"
| "cumsum_from acc (x # xs) = (acc + x) # cumsum_from (acc + x) xs"

text \<open>\<^verbatim>\<open>cdf.searchsorted(x, side='right')\<close> on an ascending array.\<close>

definition searchsorted_right :: "rat list \<Rightarrow> rat \<Rightarrow> nat" where
  "searchsorted_right cdf x = length (takeWhile (\<lambda>c. c \<le> x) cdf)"

text \<open>\<^verbatim>\<open>take\<close> of one position: out of bounds is an \<^verbatim>\<open>IndexError\<close>.\<close>

definition df_take :: "nat \<Rightarrow> nat \<Rightarrow> py_error + nat" where
  "df_take n i = (if i < n then Inr i else Inl IndexError)"

text \<open>
  One sampled row label. Without weights pandas asks numpy for
  \<^verbatim>\<open>choice(n, size=1, replace=False)\<close>, the head of a random permutation. With weights
  it checks them (their length, no negative entry, a sum other than zero), divides them
  by their sum and asks for \<^verbatim>\<open>choice(n, size=1, replace=False, p=weights)\<close>, which
  draws one uniform variate and searches it in the cumulative sums. Every check is made
  before the generator is touched.
\<close>

definition df_sample ::
  "'g numpy_random \<Rightarrow> dataframe \<Rightarrow> rat list option \<Rightarrow> 'g \<Rightarrow> (py_error + nat) \<times> 'g" where
  "df_sample R df weights g =
     (case weights of
        None \<Rightarrow>
          if nrows df = 0 then (Inl ValueError, g)
          else (let ig = np_perm_first R (nrows df) g
                in (df_take (nrows df) (fst ig), snd ig))
      | Some w \<Rightarrow>
          if length w \<noteq> nrows df then (Inl ValueError, g)
          else if list_ex (\<lambda>x. x < 0) w then (Inl ValueError, g)
          else if sum_list w = 0 then (Inl ValueError, g)
          else (let p = map (\<lambda>x. x / sum_list w) w;
                    xg = np_rand R g;
                    cdf = cumsum_from 0 p;
                    cdf' = map (\<lambda>c. c / last cdf) cdf
                in (df_take (nrows df) (searchsorted_right cdf' (fst xg)), snd xg)))"

text \<open>The three ways the generators call \<^verbatim>\<open>df.sample\<close>.\<close>

definition sample_uniform :: "'g numpy_random \<Rightarrow> dataframe \<Rightarrow> 'g \<Rightarrow> (py_error + nat) \<times> 'g" where
  "sample_uniform R df g = df_sample R df None g"

text \<open>\<^verbatim>\<open>df.sample(n = 1, weights = c)\<close> with a column name \<open>c\<close>.\<close>

definition sample_linear ::
  "'g numpy_random \<Rightarrow> dataframe \<Rightarrow> string \<Rightarrow> 'g \<Rightarrow> (py_error + nat) \<times> 'g" where
  "sample_linear R df c g =
     (case df_col df c of Inl e \<Rightarrow> (Inl e, g) | Inr w \<Rightarrow> df_sample R df (Some w) g)"

text \<open>\<^verbatim>\<open>df.sample(n = 1, weights = df[c] ** 2)\<close>.\<close>

definition sample_quadratic ::
  "'g numpy_random \<Rightarrow> dataframe \<Rightarrow> string \<Rightarrow> 'g \<Rightarrow> (py_error + nat) \<times> 'g" where
  "sample_quadratic R df c g =
     (case df_col df c of
        Inl e \<Rightarrow> (Inl e, g)
      | Inr w \<Rightarrow> df_sample R df (Some (map (\<lambda>x. x * x) w)) g)"

subsection \<open>The resampling procedure shared by the generators\<close>

text \<open>
  \<^verbatim>\<open>[df.sample(...).index[0] for i in range(k)]\<close>: \<open>m\<close> draws in a row, stopping at
  the first one that raises.
\<close>

fun draw_initial ::
  "('g \<Rightarrow> (py_error + nat) \<times> 'g) \<Rightarrow> nat \<Rightarrow> 'g \<Rightarrow> (py_error + nat list) \<times> 'g" where
  "draw_initial smp 0 g = (Inr [], g)"
| "draw_initial smp (Suc m) g =
     (case smp g of
        (Inl e, g1) \<Rightarrow> (Inl e, g1)
      | (Inr i, g1) \<Rightarrow>
          (case draw_initial smp m g1 of
             (Inl e, g2) \<Rightarrow> (Inl e, g2)
           | (Inr js, g2) \<Rightarrow> (Inr (i # js), g2)))"

text \<open>
  \<^verbatim>\<open>while len(set(indices)) < k: indices.append(df.sample(...).index[0])\<close>.
  The number of distinct entries is \<open>length (remdups idx)\<close>.
\<close>

partial_function (option) resample_until ::
  "('g \<Rightarrow> (py_error + nat) \<times> 'g) \<Rightarrow> int \<Rightarrow> nat list \<Rightarrow> 'g \<Rightarrow>
     ((py_error + nat list) \<times> 'g) option" where
  "resample_until smp k idx g =
     (if int (length (remdups idx)) < k
      then (case smp g of
              (Inl e, g1) \<Rightarrow> Some (Inl e, g1)
            | (Inr i, g1) \<Rightarrow> resample_until smp k (idx @ [i]) g1)
      else Some (Inr idx, g))"

declare resample_until.simps [code]

text \<open>\<^verbatim>\<open>[1 if i in indices else 0 for i in range(df.shape[0])]\<close>.\<close>

definition indicator_column :: "nat list \<Rightarrow> nat \<Rightarrow> int list" where
  "indicator_column idx n = map (\<lambda>i. if i \<in> set idx then 1 else 0) [0..<n]"

text \<open>
  The body that the generators share once the seed is set: the initial draws, the loop
  and the indicator column, for the requested count \<open>k\<close>.
\<close>

definition select_missing ::
  "('g \<Rightarrow> (py_error + nat) \<times> 'g) \<Rightarrow> int \<Rightarrow> nat \<Rightarrow> 'g \<Rightarrow>
     ((py_error + int list) \<times> 'g) option" where
  "select_missing smp k n g =
     (case draw_initial smp (nat k) g of
        (Inl e, g1) \<Rightarrow> Some (Inl e, g1)
      | (Inr idx0, g1) \<Rightarrow>
          (case resample_until smp k idx0 g1 of
             None \<Rightarrow> None
           | Some (Inl e, g2) \<Rightarrow> Some (Inl e, g2)
           | Some (Inr idx, g2) \<Rightarrow> Some (Inr (indicator_column idx n), g2)))"

subsection \<open>The missingness generators\<close>

definition create_mcar_column ::
  "'g numpy_random \<Rightarrow> dataframe \<Rightarrow> string \<Rightarrow> rat \<Rightarrow> int \<Rightarrow> 'g \<Rightarrow>
     ((py_error + int list) \<times> 'g) option" where
  "create_mcar_column R df missing_column p_missing random_state g =
     (case np_random_seed R random_state g of
        (Inl e, g0) \<Rightarrow> Some (Inl e, g0)
      | (Inr u, g0) \<Rightarrow>
          select_missing (sample_uniform R df)
            (requested_count df p_missing) (nrows df) g0)"

text \<open>
  With a \<open>method\<close> that is neither \<^verbatim>\<open>'linear'\<close> nor \<^verbatim>\<open>'quadratic'\<close> no branch binds
  \<^verbatim>\<open>mar_indices\<close>; the final comprehension reads it for the first row, if there is one,
  and raises (\<^verbatim>\<open>UnboundLocalError\<close>, a \<^verbatim>\<open>NameError\<close>).
\<close>

definition create_mar_column ::
  "'g numpy_random \<Rightarrow> dataframe \<Rightarrow> string \<Rightarrow> string \<Rightarrow> string \<Rightarrow> rat \<Rightarrow> int \<Rightarrow> 'g \<Rightarrow>
     ((py_error + int list) \<times> 'g) option" where
  "create_mar_column R df missing_column depends_on method p_missing random_state g =
     (case np_random_seed R random_state g of
        (Inl e, g0) \<Rightarrow> Some (Inl e, g0)
      | (Inr u, g0) \<Rightarrow>
          if method = ''linear'' then
            select_missing (sample_linear R df depends_on)
              (requested_count df p_missing) (nrows df) g0
          else if method = ''quadratic'' then
            select_missing (sample_quadratic R df depends_on)
              (requested_count df p_missing) (nrows df) g0
          else if nrows df = 0 then Some (Inr [], g0)
          else Some (Inl NameError, g0))"

definition create_nmar_column ::
  "'g numpy_random \<Rightarrow> dataframe \<Rightarrow> string \<Rightarrow> string \<Rightarrow> rat \<Rightarrow> int \<Rightarrow> 'g \<Rightarrow>
     ((py_error + int list) \<times> 'g) option" where
  "create_nmar_column R df missing_column method p_missing random_state g =
     (case np_random_seed R random_state g of
        (Inl e, g0) \<Rightarrow> Some (Inl e, g0)
      | (Inr u, g0) \<Rightarrow>
          if method = ''linear'' then
            select_missing (sample_linear R df missing_column)
              (requested_count df p_missing) (nrows df) g0
          else if method = ''quadratic'' then
            select_missing (sample_quadratic R df missing_column)
              (requested_count df p_missing) (nrows df) g0
          else if nrows df = 0 then Some (Inr [], g0)
          else Some (Inl NameError, g0))"

subsection \<open>Summary statistics\<close>

text \<open>
  \<^verbatim>\<open>np.mean\<close>, \<^verbatim>\<open>np.median\<close> and \<^verbatim>\<open>stats.mode(...)[0][0]\<close> of a column. On an empty
  array numpy returns \<^verbatim>\<open>nan\<close> for the first two, which has no counterpart here; the
  imputers evaluate the statistic only while they build the entry of a row, so on a
  well-formed table never on an empty column.
\<close>

definition np_mean :: "rat list \<Rightarrow> rat" where
  "np_mean xs = sum_list xs / of_nat (length xs)"

definition np_median :: "rat list \<Rightarrow> rat" where
  "np_median xs =
     (let s = sort xs; n = length xs
      in if odd n then s ! (n div 2) else (s ! (n div 2 - 1) + s ! (n div 2)) / 2)"

text \<open>
  \<^verbatim>\<open>stats.mode\<close> walks through the distinct values in ascending order and keeps a value
  only when its count is strictly greater than the best count so far: the result is the
  smallest of the most frequent values. Of an empty array the result is empty and
  \<^verbatim>\<open>[0][0]\<close> raises \<^verbatim>\<open>IndexError\<close>.
\<close>

definition mode_step :: "rat list \<Rightarrow> rat \<Rightarrow> rat \<times> nat \<Rightarrow> rat \<times> nat" where
  "mode_step xs score best =
     (if snd best < count_list xs score then (score, count_list xs score) else best)"

definition stats_mode :: "rat list \<Rightarrow> py_error + rat" where
  "stats_mode xs =
     (if xs = [] then Inl IndexError
      else Inr (fst (fold (mode_step xs) (sort (remdups xs)) (0, 0))))"

text \<open>
  \<^verbatim>\<open>np.std(x, ddof = 1)\<close>: the sample standard deviation with divisor \<open>n - 1\<close>. It
  needs two entries at least (numpy returns \<^verbatim>\<open>nan\<close> for fewer); statements about it are
  made for tables of two rows or more.
\<close>

definition sum_sq_dev :: "rat \<Rightarrow> rat list \<Rightarrow> rat" where
  "sum_sq_dev c xs = (\<Sum>x\<leftarrow>xs. (x - c) * (x - c))"

definition np_var_ddof1 :: "rat list \<Rightarrow> rat" where
  "np_var_ddof1 xs = sum_sq_dev (np_mean xs) xs / of_nat (length xs - 1)"

definition np_std_ddof1 :: "rat list \<Rightarrow> real" where
  "np_std_ddof1 xs = sqrt (of_rat (np_var_ddof1 xs))"

text \<open>
  \<^verbatim>\<open>df[original_column][df[missingness_column] == 0]\<close>, the observed part of a column
  (\<^verbatim>\<open>compare_histograms\<close> takes its mean for the line "Observed Mean").
\<close>

definition observed_values :: "rat list \<Rightarrow> rat list \<Rightarrow> rat list" where
  "observed_values xs ind = map fst (filter (\<lambda>xm. snd xm = 0) (zip xs ind))"

subsection \<open>Single-value imputation\<close>

text \<open>
  The three imputers are the same comprehension around a different statistic:
  \<^verbatim>\<open>[df.loc[i, impute_column] if df.loc[i, missingness_column] == 0
    else STAT(df[impute_column]) for i in range(df.shape[0])]\<close>.
  The condition is evaluated first, and the statistic is recomputed from the whole stored
  column for every row that needs it.
\<close>

definition impute_entry ::
  "(rat list \<Rightarrow> py_error + rat) \<Rightarrow> dataframe \<Rightarrow> string \<Rightarrow> string \<Rightarrow> nat \<Rightarrow> py_error + rat" where
  "impute_entry stat df impute_column missingness_column i =
     (case df_loc df i missingness_column of
        Inl e \<Rightarrow> Inl e
      | Inr m \<Rightarrow>
          if m = 0 then df_loc df i impute_column
          else (case df_col df impute_column of Inl e \<Rightarrow> Inl e | Inr xs \<Rightarrow> stat xs))"

definition impute_mean :: "dataframe \<Rightarrow> string \<Rightarrow> string \<Rightarrow> py_error + rat list" where
  "impute_mean df impute_column missingness_column =
     collect (impute_entry (\<lambda>xs. Inr (np_mean xs)) df impute_column missingness_column)
       [0..<nrows df]"

definition impute_median :: "dataframe \<Rightarrow> string \<Rightarrow> string \<Rightarrow> py_error + rat list" where
  "impute_median df impute_column missingness_column =
     collect (impute_entry (\<lambda>xs. Inr (np_median xs)) df impute_column missingness_column)
       [0..<nrows df]"

definition impute_mode :: "dataframe \<Rightarrow> string \<Rightarrow> string \<Rightarrow> py_error + rat list" where
  "impute_mode df impute_column missingness_column =
     collect (impute_entry stats_mode df impute_column missingness_column) [0..<nrows df]"

subsection \<open>Regression imputation\<close>

text \<open>
  The estimators of scikit-learn are a parameter: \<open>est_fit\<close> is
  \<^verbatim>\<open>model.fit(X, y)\<close> for the chosen kind of model, with \<open>X\<close> given row by row, and
  \<open>est_predict\<close> is \<^verbatim>\<open>model.predict(row)[0]\<close> for one row of features. Both may raise.
\<close>

datatype regression_kind = LinearRegression | LogisticRegression

record 'm estimator =
  est_fit :: "regression_kind \<Rightarrow> rat list list \<Rightarrow> rat list \<Rightarrow> py_error + 'm"
  est_predict :: "'m \<Rightarrow> rat list \<Rightarrow> py_error + rat"

text \<open>\<^verbatim>\<open>df[cs]\<close> for a list of column names, as the list of its rows.\<close>

definition df_rows :: "dataframe \<Rightarrow> string list \<Rightarrow> py_error + rat list list" where
  "df_rows df cs =
     (case collect (df_col df) cs of
        Inl e \<Rightarrow> Inl e
      | Inr X \<Rightarrow> Inr (map (\<lambda>i. map (\<lambda>xs. xs ! i) X) [0..<nrows df]))"

text \<open>\<^verbatim>\<open>df.loc[i, cs]\<close> for a list of column names.\<close>

definition df_loc_row :: "dataframe \<Rightarrow> nat \<Rightarrow> string list \<Rightarrow> py_error + rat list" where
  "df_loc_row df i cs = collect (df_loc df i) cs"

text \<open>
  The entry of row \<open>i\<close> in the result. The source reads the columns \<^verbatim>\<open>'age'\<close>,
  \<^verbatim>\<open>'age_missingness'\<close> and \<^verbatim>\<open>['children', 'partnered', 'income']\<close> here, whatever the
  arguments of the call are.
\<close>

definition regression_entry :: "'m estimator \<Rightarrow> 'm \<Rightarrow> dataframe \<Rightarrow> nat \<Rightarrow> py_error + rat" where
  "regression_entry est model df i =
     (case df_loc df i ''age_missingness'' of
        Inl e \<Rightarrow> Inl e
      | Inr m \<Rightarrow>
          if m = 0 then df_loc df i ''age''
          else (case df_loc_row df i [''children'', ''partnered'', ''income''] of
                  Inl e \<Rightarrow> Inl e
                | Inr row \<Rightarrow> est_predict est model row))"

text \<open>
  With a \<open>regression\<close> other than \<^verbatim>\<open>'linear'\<close> and \<^verbatim>\<open>'logistic'\<close> the name
  \<^verbatim>\<open>model\<close> is unbound when \<^verbatim>\<open>model.fit\<close> is evaluated. The model is fitted on
  \<^verbatim>\<open>df[X_columns]\<close> and \<^verbatim>\<open>df[impute_column]\<close>, that is on every row of the table.
\<close>

definition regression_imputation ::
  "'m estimator \<Rightarrow> dataframe \<Rightarrow> string \<Rightarrow> string list \<Rightarrow> string \<Rightarrow> string \<Rightarrow>
     py_error + rat list" where
  "regression_imputation est df impute_column X_columns missingness_column regression =
     (if regression = ''linear'' \<or> regression = ''logistic'' then
        (case df_rows df X_columns of
           Inl e \<Rightarrow> Inl e
         | Inr X \<Rightarrow>
             (case df_col df impute_column of
                Inl e \<Rightarrow> Inl e
              | Inr y \<Rightarrow>
                  (case est_fit est
                          (if regression = ''linear'' then LinearRegression
                           else LogisticRegression) X y of
                     Inl e \<Rightarrow> Inl e
                   | Inr model \<Rightarrow> collect (regression_entry est model df) [0..<nrows df])))
      else Inl NameError)"

subsection \<open>Concrete parameters for running the model\<close>

text \<open>
  A small deterministic generator, to evaluate the model on concrete tables. Its state
  is a counter; it is not numpy's Mersenne Twister, and no theorem below depends on it
  beyond the evaluation of an example.
\<close>

definition counter_random :: "nat numpy_random" where
  "counter_random =
     \<lparr> np_seed = (\<lambda>s. nat s),
       np_rand = (\<lambda>g. (of_nat (g mod 8) / 8, Suc g)),
       np_perm_first = (\<lambda>n g. (g mod n, Suc g)) \<rparr>"

text \<open>
  A stand-in estimator for the examples. It accepts what the input validation of
  scikit-learn accepts on a numeric table (at least one sample, at least one feature,
  as many targets as samples, rows of equal width, and for the logistic model at least
  two classes), and a fitted model predicts the mean of its training targets for a row
  of the width it was trained on, and raises \<^verbatim>\<open>ValueError\<close> for a row of another width.
\<close>

definition baseline_estimator :: "(nat \<times> rat) estimator" where
  "baseline_estimator =
     \<lparr> est_fit = (\<lambda>kind X y.
         if X = [] \<or> length y \<noteq> length X then Inl ValueError
         else if hd X = [] \<or> list_ex (\<lambda>r. length r \<noteq> length (hd X)) X then Inl ValueError
         else if kind = LogisticRegression \<and> length (remdups y) < 2 then Inl ValueError
         else Inr (length (hd X), np_mean y)),
       est_predict = (\<lambda>model row.
         if length row = fst model then Inr (snd model) else Inl ValueError) \<rparr>"

subsection \<open>Notions used in the statements\<close>

text \<open>A sampler is bounded by \<open>n\<close> when every row label it returns is below \<open>n\<close>.\<close>

definition bounded_sampler :: "('g \<Rightarrow> (py_error + nat) \<times> 'g) \<Rightarrow> nat \<Rightarrow> bool" where
  "bounded_sampler smp n = (\<forall>g i g'. smp g = (Inr i, g') \<longrightarrow> i < n)"

text \<open>
  Starting in state \<open>g\<close>, the first \<open>m\<close> draws of the sampler all succeed and show at
  least \<open>k\<close> distinct row labels.
\<close>

definition reaches_distinct ::
  "('g \<Rightarrow> (py_error + nat) \<times> 'g) \<Rightarrow> int \<Rightarrow> 'g \<Rightarrow> nat \<Rightarrow> bool" where
  "reaches_distinct smp k g m =
     (case draw_initial smp m g of
        (Inl e, g') \<Rightarrow> False
      | (Inr js, g') \<Rightarrow> k \<le> int (length (remdups js)))"

text \<open>The column that keeps \<open>xs\<close> where the indicator is zero and has \<open>v\<close> elsewhere.\<close>

definition imputed_column :: "rat list \<Rightarrow> rat list \<Rightarrow> rat \<Rightarrow> nat \<Rightarrow> rat list" where
  "imputed_column xs ind v n = map (\<lambda>i. if ind ! i = 0 then xs ! i else v) [0..<n]"

definition mode_value :: "rat list \<Rightarrow> rat" where
  "mode_value xs = fst (fold (mode_step xs) (sort (remdups xs)) (0, 0))"

subsection \<open>Example tables\<close>

text \<open>The shape of the notebook's table: a hundred rows (the generator for MCAR reads no column).\<close>

definition table100 :: dataframe where
  "table100 = \<lparr> nrows = 100, columns = [] \<rparr>"

definition table4 :: dataframe where
  "table4 = \<lparr> nrows = 4,
     columns = [(''age'', [20, 30, 0, 50]), (''income'', [1, 2, 3, 4])] \<rparr>"

text \<open>Only two rows have a positive weight in \<^verbatim>\<open>'age'\<close>.\<close>

definition table_sparse :: dataframe where
  "table_sparse = \<lparr> nrows = 4,
     columns = [(''age'', [20, 0, 0, 50]), (''income'', [1, 2, 3, 4])] \<rparr>"

text \<open>\<^verbatim>\<open>'age'\<close> is all zero and \<^verbatim>\<open>'income'\<close> has a negative entry.\<close>

definition table_zero :: dataframe where
  "table_zero = \<lparr> nrows = 2, columns = [(''age'', [0, 0]), (''income'', [-1, 3])] \<rparr>"

definition table_skew :: dataframe where
  "table_skew = \<lparr> nrows = 5,
     columns = [(''age'', [1, 1, 9, 9, 9]), (''age_missingness'', [0, 0, 1, 1, 0])] \<rparr>"

definition table_var :: dataframe where
  "table_var = \<lparr> nrows = 5,
     columns = [(''age'', [0, 0, 0, 1, 4]), (''age_missingness'', [0, 0, 0, 1, 0])] \<rparr>"

definition table_heights :: dataframe where
  "table_heights = \<lparr> nrows = 3,
     columns = [(''age'', [30, 40, 50]), (''age_missingness'', [0, 0, 0]),
                (''children'', [0, 1, 2]), (''partnered'', [1, 0, 1]),
                (''income'', [10, 20, 30]),
                (''height'', [150, 160, 170]), (''height_missingness'', [0, 1, 0])] \<rparr>"

text \<open>Every row is flagged as missing: no row of \<^verbatim>\<open>'age'\<close> is observed.\<close>

definition table_unobserved :: dataframe where
  "table_unobserved = \<lparr> nrows = 2,
     columns = [(''age'', [30, 30]), (''age_missingness'', [1, 1]),
                (''children'', [1, 2]), (''partnered'', [1, 0]),
                (''income'', [100, 200])] \<rparr>"

section \<open>Properties of the missingness generators\<close>

subsection \<open>Sampled row labels are in range\<close>

lemma df_sample_bounded: "df_sample R df w g = (Inr i, g') \<Longrightarrow> i < nrows df"
  by (auto simp: df_sample_def df_take_def Let_def split: option.splits if_splits)

lemma sample_uniform_bounded: "bounded_sampler (sample_uniform R df) (nrows df)"
  by (auto simp: bounded_sampler_def sample_uniform_def dest: df_sample_bounded)

lemma sample_linear_bounded: "bounded_sampler (sample_linear R df c) (nrows df)"
  by (auto simp: bounded_sampler_def sample_linear_def dest: df_sample_bounded
      split: sum.splits)

lemma sample_quadratic_bounded: "bounded_sampler (sample_quadratic R df c) (nrows df)"
  by (auto simp: bounded_sampler_def sample_quadratic_def dest: df_sample_bounded
      split: sum.splits)

lemma draw_initial_bounded:
  "bounded_sampler smp n \<Longrightarrow> draw_initial smp m g = (Inr js, g') \<Longrightarrow>
     set js \<subseteq> {..<n} \<and> length js = m"
proof (induction m arbitrary: g js)
  case 0
  then show ?case by simp
next
  case (Suc m)
  from Suc.prems(2) obtain i g1 js1 where
    s: "smp g = (Inr i, g1)" and d: "draw_initial smp m g1 = (Inr js1, g')"
    and j: "js = i # js1"
    by (auto split: prod.splits sum.splits)
  from s Suc.prems(1) have "i < n" by (auto simp: bounded_sampler_def)
  with Suc.IH [OF Suc.prems(1) d] j show ?case by simp
qed

text \<open>Drawing \<open>a + b\<close> times is drawing \<open>a\<close> times and then \<open>b\<close> times.\<close>

lemma draw_initial_add:
  "draw_initial smp (a + b) g =
     (case draw_initial smp a g of
        (Inl e, g1) \<Rightarrow> (Inl e, g1)
      | (Inr js, g1) \<Rightarrow>
          (case draw_initial smp b g1 of
             (Inl e, g2) \<Rightarrow> (Inl e, g2)
           | (Inr js', g2) \<Rightarrow> (Inr (js @ js'), g2)))"
  by (induction a arbitrary: g) (auto split: prod.splits sum.splits)

subsection \<open>The loop\<close>

lemma resample_until_done:
  "\<not> int (length (remdups idx)) < k \<Longrightarrow> resample_until smp k idx g = Some (Inr idx, g)"
  by (subst resample_until.simps) simp

lemma resample_until_step:
  "int (length (remdups idx)) < k \<Longrightarrow> smp g = (Inr i, g1) \<Longrightarrow>
     resample_until smp k idx g = resample_until smp k (idx @ [i]) g1"
  by (subst resample_until.simps) simp

lemma remdups_snoc_le: "length (remdups (idx @ [i])) \<le> Suc (length (remdups idx))"
  by (simp add: length_remdups_card_conv card_insert_if)

text \<open>
  The loop ends as soon as the draws still to come bring the number of distinct labels
  up to \<open>k\<close>, and it ends with exactly \<open>k\<close> of them: one more draw adds at most one
  new label.
\<close>

lemma resample_until_returns:
  assumes "bounded_sampler smp n"
  shows "draw_initial smp m g = (Inr js, g') \<Longrightarrow>
     k \<le> int (length (remdups (idx @ js))) \<Longrightarrow>
     length (remdups idx) \<le> nat k \<Longrightarrow> set idx \<subseteq> {..<n} \<Longrightarrow>
     \<exists>idx' g''. resample_until smp k idx g = Some (Inr idx', g'') \<and>
        length (remdups idx') = nat k \<and> set idx' \<subseteq> {..<n}"
proof (induction m arbitrary: g js idx)
  case 0
  then have "js = []" by simp
  with 0 have stop: "\<not> int (length (remdups idx)) < k" by simp
  with 0 have "length (remdups idx) = nat k" by linarith
  with stop 0 show ?case by (simp add: resample_until_done)
next
  case (Suc m)
  show ?case
  proof (cases "int (length (remdups idx)) < k")
    case False
    with Suc.prems have "length (remdups idx) = nat k" by linarith
    with False Suc.prems show ?thesis by (simp add: resample_until_done)
  next
    case True
    from Suc.prems(1) obtain i g1 js1 where
      s: "smp g = (Inr i, g1)" and d: "draw_initial smp m g1 = (Inr js1, g')"
      and j: "js = i # js1"
      by (auto split: prod.splits sum.splits)
    from s assms have i: "i < n" by (auto simp: bounded_sampler_def)
    have a: "k \<le> int (length (remdups ((idx @ [i]) @ js1)))"
      using Suc.prems(2) j by simp
    have b: "length (remdups (idx @ [i])) \<le> nat k"
      using remdups_snoc_le [of idx i] True by linarith
    have c: "set (idx @ [i]) \<subseteq> {..<n}" using Suc.prems(4) i by simp
    from Suc.IH [OF d a b c] show ?thesis
      by (simp add: resample_until_step [where smp = smp, OF True s])
  qed
qed

text \<open>
  When every draw succeeds but lands in a set of fewer than \<open>k\<close> labels, the loop never
  ends.
\<close>

lemma resample_until_starved:
  assumes mem: "\<And>g i g'. smp g = (Inr i, g') \<Longrightarrow> i \<in> S"
    and ok: "\<And>g e g'. smp g \<noteq> (Inl e, g')"
    and fin: "finite S" and small: "int (card S) < k"
  shows "set idx \<subseteq> S \<Longrightarrow> resample_until smp k idx g = None"
proof (rule ccontr)
  assume sub: "set idx \<subseteq> S" and "resample_until smp k idx g \<noteq> None"
  then obtain y where y: "resample_until smp k idx g = Some y" by auto
  have "smp = smp \<longrightarrow> k = k \<longrightarrow> \<not> set idx \<subseteq> S"
  proof (rule resample_until.raw_induct
      [where P = "\<lambda>smp' k' idx' g' y. smp' = smp \<longrightarrow> k' = k \<longrightarrow> \<not> set idx' \<subseteq> S", OF _ y])
    fix f smp' k' idx' g' y'
    assume IH: "\<And>a b c d y. f a b c d = Some y \<Longrightarrow> a = smp \<longrightarrow> b = k \<longrightarrow> \<not> set c \<subseteq> S"
      and step: "(if int (length (remdups idx')) < k'
            then case smp' g' of (Inl e, g1) \<Rightarrow> Some (Inl e, g1)
                 | (Inr i, g1) \<Rightarrow> f smp' k' (idx' @ [i]) g1
            else Some (Inr idx', g')) = Some y'"
    show "smp' = smp \<longrightarrow> k' = k \<longrightarrow> \<not> set idx' \<subseteq> S"
    proof (intro impI notI)
      assume eq: "smp' = smp" "k' = k" and s: "set idx' \<subseteq> S"
      then have "card (set idx') \<le> card S" using fin by (simp add: card_mono)
      then have lt: "int (length (remdups idx')) < k"
        using small by (simp add: length_remdups_card_conv)
      obtain r g1 where sg: "smp g' = (r, g1)" by (cases "smp g'")
      with ok obtain i where r: "r = Inr i" by (cases r) auto
      from sg r mem have "i \<in> S" by auto
      with s have s': "set (idx' @ [i]) \<subseteq> S" by simp
      from step lt eq sg r have "f smp k (idx' @ [i]) g1 = Some y'" by simp
      from IH [OF this] s' show False by simp
    qed
  qed
  with sub show False by simp
qed

subsection \<open>The indicator column\<close>

lemma count_list_map_filter: "count_list (map f xs) v = length (filter (\<lambda>x. f x = v) xs)"
  by (induction xs) auto

lemma sum_list_indicator:
  "sum_list (map (\<lambda>i. if P i then 1 else 0) xs) = int (length (filter P xs))"
  by (induction xs) auto

lemma filter_mem_upt:
  assumes "set idx \<subseteq> {..<n}"
  shows "length (filter (\<lambda>i. i \<in> set idx) [0..<n]) = length (remdups idx)"
proof -
  have "length (filter (\<lambda>i. i \<in> set idx) [0..<n])
          = card ({i. i \<in> set idx} \<inter> set [0..<n])"
    by (rule distinct_length_filter) simp
  also have "{i. i \<in> set idx} \<inter> set [0..<n] = set idx" using assms by auto
  finally show ?thesis by (simp add: length_remdups_card_conv)
qed

lemma indicator_column_counts:
  assumes "set idx \<subseteq> {..<n}"
  shows "length (indicator_column idx n) = n"
    and "count_list (indicator_column idx n) 1 = length (remdups idx)"
    and "count_list (indicator_column idx n) 0 = n - length (remdups idx)"
    and "sum_list (indicator_column idx n) = int (length (remdups idx))"
proof -
  show "length (indicator_column idx n) = n" by (simp add: indicator_column_def)
  have one: "length (filter (\<lambda>i. i \<in> set idx) [0..<n]) = length (remdups idx)"
    by (rule filter_mem_upt [OF assms])
  have "(\<lambda>i. (if i \<in> set idx then 1 else 0) = (1::int)) = (\<lambda>i. i \<in> set idx)" by auto
  then show "count_list (indicator_column idx n) 1 = length (remdups idx)"
    by (simp add: indicator_column_def count_list_map_filter one)
  have z: "(\<lambda>i. (if i \<in> set idx then 1 else 0) = (0::int)) = (\<lambda>i. \<not> i \<in> set idx)"
    by auto
  have "length (filter (\<lambda>i. i \<in> set idx) [0..<n])
          + length (filter (\<lambda>i. \<not> i \<in> set idx) [0..<n]) = length [0..<n]"
    by (rule sum_length_filter_compl)
  with one have "length (filter (\<lambda>i. \<not> i \<in> set idx) [0..<n]) = n - length (remdups idx)"
    by simp
  then show "count_list (indicator_column idx n) 0 = n - length (remdups idx)"
    by (simp add: indicator_column_def count_list_map_filter z)
  show "sum_list (indicator_column idx n) = int (length (remdups idx))"
    unfolding indicator_column_def by (simp only: sum_list_indicator one)
qed

subsection \<open>The shared body\<close>

lemma select_missing_returns:
  assumes b: "bounded_sampler smp n" and r: "reaches_distinct smp k g m"
  shows "\<exists>col g'. select_missing smp k n g = Some (Inr col, g') \<and> length col = n \<and>
           count_list col 1 = nat k \<and> count_list col 0 = n - nat k \<and>
           sum_list col = int (nat k)"
proof -
  from r obtain js g' where d: "draw_initial smp m g = (Inr js, g')"
    and k: "k \<le> int (length (remdups js))"
    by (auto simp: reaches_distinct_def split: prod.splits sum.splits)
  from draw_initial_bounded [OF b d] have lj: "length js = m" by simp
  have "length (remdups js) \<le> length js" by (rule length_remdups_leq)
  with k lj have "nat k \<le> m" by linarith
  then obtain c where m: "m = nat k + c" using le_Suc_ex by blast
  from d [unfolded m draw_initial_add] obtain idx0 g1 js' where
    d0: "draw_initial smp (nat k) g = (Inr idx0, g1)" and
    d1: "draw_initial smp c g1 = (Inr js', g')" and j: "js = idx0 @ js'"
    by (auto split: prod.splits sum.splits)
  from draw_initial_bounded [OF b d0]
  have i0: "set idx0 \<subseteq> {..<n}" "length idx0 = nat k" by simp_all
  have l0: "length (remdups idx0) \<le> nat k"
    using length_remdups_leq [of idx0] i0(2) by simp
  from resample_until_returns [OF b d1 k [unfolded j] l0 i0(1)] obtain idx' g'' where
    res: "resample_until smp k idx0 g1 = Some (Inr idx', g'')" and
    len: "length (remdups idx') = nat k" and sub: "set idx' \<subseteq> {..<n}" by blast
  have "select_missing smp k n g = Some (Inr (indicator_column idx' n), g'')"
    by (simp add: select_missing_def d0 res)
  with indicator_column_counts [OF sub] len show ?thesis by simp
qed

lemma select_missing_none_requested:
  assumes "k \<le> 0"
  shows "select_missing smp k n g = Some (Inr (replicate n 0), g)"
proof -
  have "resample_until smp k [] g = Some (Inr [], g)"
    using assms by (simp add: resample_until_done)
  moreover have "indicator_column [] n = replicate n 0"
    by (simp add: indicator_column_def map_replicate_const)
  ultimately show ?thesis using assms by (simp add: select_missing_def)
qed

lemma select_missing_first_draw_fails:
  assumes "0 < k" and "smp g = (Inl e, g1)"
  shows "select_missing smp k n g = Some (Inl e, g1)"
proof -
  from assms(1) obtain j where "nat k = Suc j" by (metis Suc_pred' zero_less_nat_eq)
  then show ?thesis using assms(2) by (simp add: select_missing_def)
qed

subsection \<open>Seed, count and weights\<close>

lemma seed_ok: "0 \<le> s \<Longrightarrow> s < 2 ^ 32 \<Longrightarrow> np_random_seed R s g = (Inr (), np_seed R s)"
  by (simp add: np_random_seed_def)

lemma requested_count_empty: "nrows df = 0 \<Longrightarrow> requested_count df p = 0"
  by (simp add: requested_count_def py_round_def)

lemma weighted_sample_rejects:
  assumes "list_ex (\<lambda>x. x < 0) w \<or> sum_list w = 0"
  shows "df_sample R df (Some w) g = (Inl ValueError, g)"
  using assms by (auto simp: df_sample_def)

lemma sum_list_squares_zero:
  "(\<forall>x\<in>set w. x = (0::rat)) \<Longrightarrow> sum_list (map (\<lambda>x. x * x) w) = 0"
  by (induction w) auto

lemma sum_list_all_zero: "(\<forall>x\<in>set w. x = (0::rat)) \<Longrightarrow> sum_list w = 0"
  by (induction w) auto

lemma sample_linear_rejects:
  assumes "df_col df c = Inr w" and "(\<exists>x\<in>set w. x < 0) \<or> (\<forall>x\<in>set w. x = 0)"
  shows "sample_linear R df c g = (Inl ValueError, g)"
proof -
  from assms(2) have "list_ex (\<lambda>x. x < 0) w \<or> sum_list w = 0"
    by (auto simp: list_ex_iff sum_list_all_zero)
  then show ?thesis by (simp add: sample_linear_def assms(1) weighted_sample_rejects)
qed

lemma sample_quadratic_rejects:
  assumes "df_col df c = Inr w" and "\<forall>x\<in>set w. x = 0"
  shows "sample_quadratic R df c g = (Inl ValueError, g)"
  using assms by (simp add: sample_quadratic_def weighted_sample_rejects sum_list_squares_zero)

subsection \<open>Evaluation on the example tables\<close>

lemma counter_seed: "np_seed counter_random 42 = 42"
  by (simp add: counter_random_def)

lemma sparse_draw:
  "sample_linear counter_random table_sparse ''age'' g =
     (Inr (if g mod 8 < 3 then 0 else 3), Suc g)"
proof -
  have "g mod 8 < 8" by simp
  then consider "g mod 8 = 0" | "g mod 8 = 1" | "g mod 8 = 2" | "g mod 8 = 3"
    | "g mod 8 = 4" | "g mod 8 = 5" | "g mod 8 = 6" | "g mod 8 = 7" by linarith
  then show ?thesis
    by cases (simp_all add: sample_linear_def df_col_def table_sparse_def df_sample_def
        counter_random_def searchsorted_right_def df_take_def)
qed

lemma sparse_never_returns:
  "create_mar_column counter_random table_sparse ''income'' ''age'' ''linear'' (3 / 4) 42 0
     = None"
proof -
  let ?smp = "sample_linear counter_random table_sparse ''age''"
  have k: "requested_count table_sparse (3 / 4) = 3" by code_simp
  have d: "draw_initial ?smp 3 42 = (Inr [0, 3, 3], 45)"
    by (simp add: numeral_3_eq_3 sparse_draw)
  have "resample_until ?smp 3 [0, 3, 3] 45 = None"
  proof (rule resample_until_starved [where S = "{0, 3}"])
    show "\<And>g i g'. ?smp g = (Inr i, g') \<Longrightarrow> i \<in> {0, 3}"
      by (auto simp: sparse_draw split: if_splits)
    show "\<And>g e g'. ?smp g \<noteq> (Inl e, g')" by (simp add: sparse_draw)
  qed simp_all
  then show ?thesis
    by (simp add: create_mar_column_def np_random_seed_def counter_seed k
        select_missing_def d)
qed

lemma zero_age_column: "df_col table_zero ''age'' = Inr [0, 0]"
  by (simp add: df_col_def table_zero_def)

lemma negative_income_column: "df_col table_zero ''income'' = Inr [- 1, 3]"
  by (simp add: df_col_def table_zero_def)

lemma count_zero_half: "requested_count table_zero (1 / 2) = 1"
  by code_simp

lemma count_zero_hundredth: "requested_count table_zero (1 / 100) = 0"
  by code_simp

lemma count_zero_negative: "requested_count table_zero (- 1) = - 2"
  by code_simp

subsection \<open>C1: the number of rows a generator marks\<close>

text \<open>
  The claim as it is written fails, for any random source. On \<open>table_zero\<close> the
  weights of \<^verbatim>\<open>create_mar_column\<close> sum to zero and the first draw raises
  \<^verbatim>\<open>ValueError\<close>; on \<open>table_sparse\<close> three rows are requested but only two have a
  positive weight, so the loop never ends; and with a negative \<^verbatim>\<open>p_missing\<close> the
  rounded count is negative while the returned list has no entry equal to 1.
\<close>

theorem generators_mark_requested_count_counterexample:
  "create_mar_column counter_random table_zero ''income'' ''age'' ''linear'' (1 / 2) 42 0
     = Some (Inl ValueError, 42) \<and>
   create_mar_column counter_random table_sparse ''income'' ''age'' ''linear'' (3 / 4) 42 0
     = None \<and>
   create_mcar_column counter_random table_zero ''age'' (- 1) 42 0 = Some (Inr [0, 0], 42) \<and>
   requested_count table_zero (- 1) = - 2"
proof -
  have n: "nrows table_zero = 2" by (simp add: table_zero_def)
  have "sample_linear counter_random table_zero ''age'' 42 = (Inl ValueError, 42)"
    by (rule sample_linear_rejects [OF zero_age_column]) simp
  then have "select_missing (sample_linear counter_random table_zero ''age'') 1 2 42
      = Some (Inl ValueError, 42)"
    by (rule select_missing_first_draw_fails [rotated]) simp
  then have a: "create_mar_column counter_random table_zero ''income'' ''age'' ''linear''
      (1 / 2) 42 0 = Some (Inl ValueError, 42)"
    by (simp add: create_mar_column_def np_random_seed_def counter_seed count_zero_half n)
  have "select_missing (sample_uniform counter_random table_zero) (- 2) 2 42
      = Some (Inr (replicate 2 0), 42)"
    by (rule select_missing_none_requested) simp
  then have c: "create_mcar_column counter_random table_zero ''age'' (- 1) 42 0
      = Some (Inr [0, 0], 42)"
    by (simp add: create_mcar_column_def np_random_seed_def counter_seed
        count_zero_negative n numeral_2_eq_2)
  from a sparse_never_returns c count_zero_negative show ?thesis by simp
qed

text \<open>
  C1, as amended. Let the seed be valid (\<open>0 \<le> random_state < 2^32\<close>) and let \<open>k\<close> be
  \<^verbatim>\<open>round(p_missing * n)\<close> for a table of \<open>n\<close> rows. If, from the freshly seeded
  state, some finite number \<open>m\<close> of draws all succeed and show at least \<open>k\<close> distinct
  row labels, then each generator (for MAR and NMAR with the method \<^verbatim>\<open>'linear'\<close> or
  \<^verbatim>\<open>'quadratic'\<close>) returns a list of length \<open>n\<close> with exactly \<open>max 0 k\<close> entries
  equal to 1 and all other entries 0, so that the list sums to that count (30 for a
  table of 100 rows and \<^verbatim>\<open>p_missing = 0.3\<close>). If \<open>k \<le> 0\<close> the result is the all-zero
  list and the generator is left in the freshly seeded state: nothing was sampled.
\<close>

theorem generators_mark_requested_count:
  assumes "0 \<le> random_state" and "random_state < 2 ^ 32"
  shows
    "(reaches_distinct (sample_uniform R df) (requested_count df p_missing)
         (np_seed R random_state) m \<longrightarrow>
       (\<exists>col g'. create_mcar_column R df missing_column p_missing random_state g
                    = Some (Inr col, g') \<and>
          length col = nrows df \<and>
          count_list col 1 = nat (requested_count df p_missing) \<and>
          count_list col 0 = nrows df - nat (requested_count df p_missing) \<and>
          sum_list col = int (nat (requested_count df p_missing)))) \<and>
     (reaches_distinct
         (if method = ''linear'' then sample_linear R df depends_on
          else sample_quadratic R df depends_on)
         (requested_count df p_missing) (np_seed R random_state) m \<and>
      (method = ''linear'' \<or> method = ''quadratic'') \<longrightarrow>
       (\<exists>col g'. create_mar_column R df missing_column depends_on method p_missing
                    random_state g = Some (Inr col, g') \<and>
          length col = nrows df \<and>
          count_list col 1 = nat (requested_count df p_missing) \<and>
          count_list col 0 = nrows df - nat (requested_count df p_missing) \<and>
          sum_list col = int (nat (requested_count df p_missing)))) \<and>
     (reaches_distinct
         (if method = ''linear'' then sample_linear R df missing_column
          else sample_quadratic R df missing_column)
         (requested_count df p_missing) (np_seed R random_state) m \<and>
      (method = ''linear'' \<or> method = ''quadratic'') \<longrightarrow>
       (\<exists>col g'. create_nmar_column R df missing_column method p_missing
                    random_state g = Some (Inr col, g') \<and>
          length col = nrows df \<and>
          count_list col 1 = nat (requested_count df p_missing) \<and>
          count_list col 0 = nrows df - nat (requested_count df p_missing) \<and>
          sum_list col = int (nat (requested_count df p_missing)))) \<and>
     (requested_count df p_missing \<le> 0 \<longrightarrow>
        create_mcar_column R df missing_column p_missing random_state g
          = Some (Inr (replicate (nrows df) 0), np_seed R random_state) \<and>
        (method = ''linear'' \<or> method = ''quadratic'' \<longrightarrow>
           create_mar_column R df missing_column depends_on method p_missing random_state g
             = Some (Inr (replicate (nrows df) 0), np_seed R random_state) \<and>
           create_nmar_column R df missing_column method p_missing random_state g
             = Some (Inr (replicate (nrows df) 0), np_seed R random_state)))"
proof -
  note s = seed_ok [OF assms, of R g]
  have mcar: "create_mcar_column R df missing_column p_missing random_state g =
      select_missing (sample_uniform R df) (requested_count df p_missing) (nrows df)
        (np_seed R random_state)"
    by (simp add: create_mcar_column_def s)
  have mar: "method = ''linear'' \<or> method = ''quadratic'' \<Longrightarrow>
      create_mar_column R df missing_column depends_on method p_missing random_state g =
      select_missing (if method = ''linear'' then sample_linear R df depends_on
          else sample_quadratic R df depends_on) (requested_count df p_missing) (nrows df)
        (np_seed R random_state)"
    by (auto simp: create_mar_column_def s)
  have nmar: "method = ''linear'' \<or> method = ''quadratic'' \<Longrightarrow>
      create_nmar_column R df missing_column method p_missing random_state g =
      select_missing (if method = ''linear'' then sample_linear R df missing_column
          else sample_quadratic R df missing_column) (requested_count df p_missing)
        (nrows df) (np_seed R random_state)"
    by (auto simp: create_nmar_column_def s)
  have b1: "bounded_sampler (if method = ''linear'' then sample_linear R df depends_on
          else sample_quadratic R df depends_on) (nrows df)"
    by (simp add: sample_linear_bounded sample_quadratic_bounded)
  have b2: "bounded_sampler (if method = ''linear'' then sample_linear R df missing_column
          else sample_quadratic R df missing_column) (nrows df)"
    by (simp add: sample_linear_bounded sample_quadratic_bounded)
  show ?thesis
  proof (intro conjI impI)
    assume "reaches_distinct (sample_uniform R df) (requested_count df p_missing)
         (np_seed R random_state) m"
    from select_missing_returns [OF sample_uniform_bounded this]
    show "\<exists>col g'. create_mcar_column R df missing_column p_missing random_state g
                    = Some (Inr col, g') \<and>
          length col = nrows df \<and>
          count_list col 1 = nat (requested_count df p_missing) \<and>
          count_list col 0 = nrows df - nat (requested_count df p_missing) \<and>
          sum_list col = int (nat (requested_count df p_missing))"
      unfolding mcar .
  next
    assume a: "reaches_distinct
         (if method = ''linear'' then sample_linear R df depends_on
          else sample_quadratic R df depends_on)
         (requested_count df p_missing) (np_seed R random_state) m \<and>
      (method = ''linear'' \<or> method = ''quadratic'')"
    from select_missing_returns [OF b1 conjunct1 [OF a]]
    show "\<exists>col g'. create_mar_column R df missing_column depends_on method p_missing
                    random_state g = Some (Inr col, g') \<and>
          length col = nrows df \<and>
          count_list col 1 = nat (requested_count df p_missing) \<and>
          count_list col 0 = nrows df - nat (requested_count df p_missing) \<and>
          sum_list col = int (nat (requested_count df p_missing))"
      unfolding mar [OF conjunct2 [OF a]] .
  next
    assume a: "reaches_distinct
         (if method = ''linear'' then sample_linear R df missing_column
          else sample_quadratic R df missing_column)
         (requested_count df p_missing) (np_seed R random_state) m \<and>
      (method = ''linear'' \<or> method = ''quadratic'')"
    from select_missing_returns [OF b2 conjunct1 [OF a]]
    show "\<exists>col g'. create_nmar_column R df missing_column method p_missing
                    random_state g = Some (Inr col, g') \<and>
          length col = nrows df \<and>
          count_list col 1 = nat (requested_count df p_missing) \<and>
          count_list col 0 = nrows df - nat (requested_count df p_missing) \<and>
          sum_list col = int (nat (requested_count df p_missing))"
      unfolding nmar [OF conjunct2 [OF a]] .
  next
    assume "requested_count df p_missing \<le> 0"
    then show "create_mcar_column R df missing_column p_missing random_state g
          = Some (Inr (replicate (nrows df) 0), np_seed R random_state)"
      unfolding mcar by (rule select_missing_none_requested)
  next
    assume k: "requested_count df p_missing \<le> 0"
      and m: "method = ''linear'' \<or> method = ''quadratic''"
    show "create_mar_column R df missing_column depends_on method p_missing random_state g
             = Some (Inr (replicate (nrows df) 0), np_seed R random_state)"
      unfolding mar [OF m] using k by (rule select_missing_none_requested)
  next
    assume k: "requested_count df p_missing \<le> 0"
      and m: "method = ''linear'' \<or> method = ''quadratic''"
    show "create_nmar_column R df missing_column method p_missing random_state g
             = Some (Inr (replicate (nrows df) 0), np_seed R random_state)"
      unfolding nmar [OF m] using k by (rule select_missing_none_requested)
  qed
qed

text \<open>
  The theorem at work: thirty of a hundred rows for MCAR with \<^verbatim>\<open>p_missing = 0.3\<close>, two
  of four rows for MAR (linear) and NMAR (quadratic) with \<^verbatim>\<open>p_missing = 0.5\<close>, and
  no row, with the state untouched after seeding, for \<^verbatim>\<open>p_missing = 0.01\<close>.
\<close>

theorem generators_mark_requested_count_witness:
  "(\<exists>col g'. create_mcar_column counter_random table100 ''age'' (3 / 10) 42 0
                = Some (Inr col, g') \<and>
      length col = 100 \<and> count_list col 1 = 30 \<and> count_list col 0 = 70 \<and>
      sum_list col = 30) \<and>
   (\<exists>col g'. create_mar_column counter_random table4 ''income'' ''age'' ''linear'' (1 / 2)
                42 0 = Some (Inr col, g') \<and>
      length col = 4 \<and> count_list col 1 = 2 \<and> count_list col 0 = 2 \<and> sum_list col = 2) \<and>
   (\<exists>col g'. create_nmar_column counter_random table4 ''income'' ''quadratic'' (1 / 2)
                42 0 = Some (Inr col, g') \<and>
      length col = 4 \<and> count_list col 1 = 2 \<and> count_list col 0 = 2 \<and> sum_list col = 2) \<and>
   create_mcar_column counter_random table4 ''age'' (1 / 100) 42 0
     = Some (Inr [0, 0, 0, 0], 42)"
proof -
  have s: "(0::int) \<le> 42" "(42::int) < 2 ^ 32" by simp_all
  have k100: "requested_count table100 (3 / 10) = 30" by code_simp
  have n100: "nrows table100 = 100" by (simp add: table100_def)
  have r100: "reaches_distinct (sample_uniform counter_random table100) 30
      (np_seed counter_random 42) 30" by code_simp
  have k4: "requested_count table4 (1 / 2) = 2" by code_simp
  have k0: "requested_count table4 (1 / 100) = 0" by code_simp
  have n4: "nrows table4 = 4" by (simp add: table4_def)
  have r4: "reaches_distinct (sample_linear counter_random table4 ''age'') 2
      (np_seed counter_random 42) 3" by code_simp
  have q4: "reaches_distinct (sample_quadratic counter_random table4 ''income'') 2
      (np_seed counter_random 42) 3" by code_simp
  have z4: "replicate 4 (0::int) = [0, 0, 0, 0]" by (simp add: eval_nat_numeral)
  have w1: "\<exists>col g'. create_mcar_column counter_random table100 ''age'' (3 / 10) 42 0
                = Some (Inr col, g') \<and>
      length col = 100 \<and> count_list col 1 = 30 \<and> count_list col 0 = 70 \<and>
      sum_list col = 30"
    using generators_mark_requested_count [OF s, where R = counter_random
        and df = table100 and p_missing = "3 / 10" and m = 30
        and missing_column = "''age''" and g = 0, THEN conjunct1] r100
    by (simp add: k100 n100)
  have w2: "\<exists>col g'. create_mar_column counter_random table4 ''income'' ''age'' ''linear''
                (1 / 2) 42 0 = Some (Inr col, g') \<and>
      length col = 4 \<and> count_list col 1 = 2 \<and> count_list col 0 = 2 \<and> sum_list col = 2"
    using generators_mark_requested_count [OF s, where R = counter_random
        and df = table4 and p_missing = "1 / 2" and m = 3
        and depends_on = "''age''" and missing_column = "''income''" and g = 0,
        of "''linear''", THEN conjunct2, THEN conjunct1] r4
    by (simp add: k4 n4)
  have w3: "\<exists>col g'. create_nmar_column counter_random table4 ''income'' ''quadratic''
                (1 / 2) 42 0 = Some (Inr col, g') \<and>
      length col = 4 \<and> count_list col 1 = 2 \<and> count_list col 0 = 2 \<and> sum_list col = 2"
    using generators_mark_requested_count [OF s, where R = counter_random
        and df = table4 and p_missing = "1 / 2" and m = 3
        and depends_on = "''age''" and missing_column = "''income''" and g = 0,
        of "''quadratic''", THEN conjunct2, THEN conjunct2, THEN conjunct1] q4
    by (simp add: k4 n4)
  have w4: "create_mcar_column counter_random table4 ''age'' (1 / 100) 42 0
     = Some (Inr [0, 0, 0, 0], 42)"
    using generators_mark_requested_count [OF s, where R = counter_random
        and df = table4 and p_missing = "1 / 100" and missing_column = "''age''" and g = 0,
        THEN conjunct2, THEN conjunct2, THEN conjunct2]
    by (simp add: k0 n4 z4 counter_seed)
  from w1 w2 w3 w4 show ?thesis by (intro conjI)
qed

subsection \<open>C2: determinism in the seed\<close>

text \<open>
  C2. Each generator begins by seeding the global generator, so what it returns (a
  column, an exception, or nothing at all when it does not return) is the same whatever
  state the global generator was in before the call; in particular a second call with the
  same \<^verbatim>\<open>random_state\<close> and the same inputs, made in the state that the first call left,
  returns what the first call returned.
\<close>

theorem generators_ignore_prior_state:
  "map_option fst (create_mcar_column R df missing_column p_missing random_state g)
     = map_option fst (create_mcar_column R df missing_column p_missing random_state g') \<and>
   map_option fst
       (create_mar_column R df missing_column depends_on method p_missing random_state g)
     = map_option fst
       (create_mar_column R df missing_column depends_on method p_missing random_state g') \<and>
   map_option fst (create_nmar_column R df missing_column method p_missing random_state g)
     = map_option fst
       (create_nmar_column R df missing_column method p_missing random_state g')"
  by (simp add: create_mcar_column_def create_mar_column_def create_nmar_column_def
      np_random_seed_def)

text \<open>An instance: the prior states 0 and 7 give the same results on \<open>table4\<close>.\<close>

theorem generators_ignore_prior_state_witness:
  "map_option fst (create_mcar_column counter_random table4 ''income'' (1 / 2) 42 0)
     = map_option fst (create_mcar_column counter_random table4 ''income'' (1 / 2) 42 7) \<and>
   map_option fst
       (create_mar_column counter_random table4 ''income'' ''age'' ''linear'' (1 / 2) 42 0)
     = map_option fst
       (create_mar_column counter_random table4 ''income'' ''age'' ''linear'' (1 / 2) 42 7) \<and>
   map_option fst
       (create_nmar_column counter_random table4 ''income'' ''linear'' (1 / 2) 42 0)
     = map_option fst
       (create_nmar_column counter_random table4 ''income'' ''linear'' (1 / 2) 42 7)"
  by (rule generators_ignore_prior_state)

subsection \<open>C5: degenerate weights\<close>

text \<open>
  The claim as it is written fails when no row is requested: with the default
  \<^verbatim>\<open>p_missing = 0.01\<close> on two rows the count rounds to 0, nothing is sampled and the
  all-zero column comes back although the weights in \<^verbatim>\<open>'age'\<close> are all zero and the
  weights in \<^verbatim>\<open>'income'\<close> include a negative one. In the quadratic mode the weights are
  the squares, so a negative entry of the column is no obstacle either: one row of two is
  marked.
\<close>

theorem degenerate_weights_raise_counterexample:
  "create_mar_column counter_random table_zero ''income'' ''age'' ''linear'' (1 / 100) 42 0
     = Some (Inr [0, 0], 42) \<and>
   create_nmar_column counter_random table_zero ''income'' ''linear'' (1 / 100) 42 0
     = Some (Inr [0, 0], 42) \<and>
   create_nmar_column counter_random table_zero ''income'' ''quadratic'' (1 / 2) 42 0
     = Some (Inr [0, 1], 43)"
proof -
  have n: "nrows table_zero = 2" by (simp add: table_zero_def)
  have z: "\<And>smp. select_missing smp 0 2 (42::nat) = Some (Inr [0, 0], 42)"
    by (simp add: select_missing_none_requested numeral_2_eq_2)
  have a: "create_mar_column counter_random table_zero ''income'' ''age'' ''linear''
      (1 / 100) 42 0 = Some (Inr [0, 0], 42)"
    by (simp add: create_mar_column_def np_random_seed_def counter_seed
        count_zero_hundredth n z)
  have b: "create_nmar_column counter_random table_zero ''income'' ''linear''
      (1 / 100) 42 0 = Some (Inr [0, 0], 42)"
    by (simp add: create_nmar_column_def np_random_seed_def counter_seed
        count_zero_hundredth n z)
  let ?smp = "sample_quadratic counter_random table_zero ''income''"
  have d: "?smp 42 = (Inr 1, 43)"
    by (simp add: sample_quadratic_def negative_income_column df_sample_def n
        counter_random_def searchsorted_right_def df_take_def)
  then have "draw_initial ?smp 1 42 = (Inr [1], 43)" by simp
  then have "select_missing ?smp 1 2 42 = Some (Inr [0, 1], 43)"
    by (simp add: select_missing_def resample_until_done indicator_column_def
        numeral_2_eq_2)
  then have c: "create_nmar_column counter_random table_zero ''income'' ''quadratic''
      (1 / 2) 42 0 = Some (Inr [0, 1], 43)"
    by (simp add: create_nmar_column_def np_random_seed_def counter_seed count_zero_half n)
  from a b c show ?thesis by simp
qed

text \<open>
  C5, as amended. Let the seed be valid and let at least one row be requested
  (\<^verbatim>\<open>round(p_missing * n) \<ge> 1\<close>). In the linear mode, if the weight column (\<^verbatim>\<open>depends_on\<close>
  for MAR, \<^verbatim>\<open>missing_column\<close> for NMAR) has a negative entry or is all zero, the generator
  raises \<^verbatim>\<open>ValueError\<close> at its first draw. In the quadratic mode, where the weights are
  the squares of the column, it raises \<^verbatim>\<open>ValueError\<close> if the column is all zero. No
  indicator column is returned and the generator state stays as seeded.
\<close>

theorem degenerate_weights_raise:
  assumes "0 \<le> random_state" and "random_state < 2 ^ 32"
    and "1 \<le> requested_count df p_missing"
  shows
    "(df_col df depends_on = Inr w \<and> ((\<exists>x\<in>set w. x < 0) \<or> (\<forall>x\<in>set w. x = 0)) \<longrightarrow>
        create_mar_column R df missing_column depends_on ''linear'' p_missing random_state g
          = Some (Inl ValueError, np_seed R random_state)) \<and>
     (df_col df depends_on = Inr w \<and> (\<forall>x\<in>set w. x = 0) \<longrightarrow>
        create_mar_column R df missing_column depends_on ''quadratic'' p_missing
          random_state g = Some (Inl ValueError, np_seed R random_state)) \<and>
     (df_col df missing_column = Inr v \<and> ((\<exists>x\<in>set v. x < 0) \<or> (\<forall>x\<in>set v. x = 0)) \<longrightarrow>
        create_nmar_column R df missing_column ''linear'' p_missing random_state g
          = Some (Inl ValueError, np_seed R random_state)) \<and>
     (df_col df missing_column = Inr v \<and> (\<forall>x\<in>set v. x = 0) \<longrightarrow>
        create_nmar_column R df missing_column ''quadratic'' p_missing random_state g
          = Some (Inl ValueError, np_seed R random_state))"
proof -
  note s = seed_ok [OF assms(1,2), of R g]
  from assms(3) have k: "0 < requested_count df p_missing" by simp
  show ?thesis
    by (intro conjI impI; elim conjE)
      (simp_all add: create_mar_column_def create_nmar_column_def s
        select_missing_first_draw_fails [OF k sample_linear_rejects]
        select_missing_first_draw_fails [OF k sample_quadratic_rejects])
qed

text \<open>
  On \<open>table_zero\<close> with one row requested: the all-zero \<^verbatim>\<open>'age'\<close> stops MAR in both
  modes and NMAR in the quadratic mode, the negative entry of \<^verbatim>\<open>'income'\<close> stops NMAR in
  the linear mode.
\<close>

theorem degenerate_weights_raise_witness:
  "create_mar_column counter_random table_zero ''income'' ''age'' ''linear'' (1 / 2) 42 0
     = Some (Inl ValueError, 42) \<and>
   create_mar_column counter_random table_zero ''income'' ''age'' ''quadratic'' (1 / 2) 42 0
     = Some (Inl ValueError, 42) \<and>
   create_nmar_column counter_random table_zero ''income'' ''linear'' (1 / 2) 42 0
     = Some (Inl ValueError, 42) \<and>
   create_nmar_column counter_random table_zero ''age'' ''quadratic'' (1 / 2) 42 0
     = Some (Inl ValueError, 42)"
proof -
  have s: "(0::int) \<le> 42" "(42::int) < 2 ^ 32" by simp_all
  have k: "1 \<le> requested_count table_zero (1 / 2)" by (simp add: count_zero_half)
  note t = degenerate_weights_raise [OF s k, where R = counter_random and g = 0]
  have a: "create_mar_column counter_random table_zero ''income'' ''age'' ''linear''
      (1 / 2) 42 0 = Some (Inl ValueError, 42)"
    using t [where depends_on = "''age''" and w = "[0, 0]"
        and missing_column = "''income''", THEN conjunct1]
    by (simp add: zero_age_column counter_seed)
  have b: "create_mar_column counter_random table_zero ''income'' ''age'' ''quadratic''
      (1 / 2) 42 0 = Some (Inl ValueError, 42)"
    using t [where depends_on = "''age''" and w = "[0, 0]"
        and missing_column = "''income''", THEN conjunct2, THEN conjunct1]
    by (simp add: zero_age_column counter_seed)
  have c: "create_nmar_column counter_random table_zero ''income'' ''linear''
      (1 / 2) 42 0 = Some (Inl ValueError, 42)"
    using t [where missing_column = "''income''" and v = "[- 1, 3]",
        THEN conjunct2, THEN conjunct2, THEN conjunct1]
    by (simp add: negative_income_column counter_seed)
  have d: "create_nmar_column counter_random table_zero ''age'' ''quadratic''
      (1 / 2) 42 0 = Some (Inl ValueError, 42)"
    using t [where missing_column = "''age''" and v = "[0, 0]",
        THEN conjunct2, THEN conjunct2, THEN conjunct2]
    by (simp add: zero_age_column counter_seed)
  from a b c d show ?thesis by simp
qed

subsection \<open>C8: MCAR does not read \<^verbatim>\<open>missing_column\<close>\<close>

text \<open>
  C8. Two calls of \<^verbatim>\<open>create_mcar_column\<close> that differ only in \<^verbatim>\<open>missing_column\<close> have
  the same outcome: the argument is never read and the sampling has no weights.
\<close>

theorem mcar_ignores_missing_column:
  "create_mcar_column R df missing_column p_missing random_state g
     = create_mcar_column R df missing_column' p_missing random_state g"
  by (simp add: create_mcar_column_def)

theorem mcar_ignores_missing_column_witness:
  "create_mcar_column counter_random table4 ''age'' (1 / 2) 42 0
     = create_mcar_column counter_random table4 ''income'' (1 / 2) 42 0"
  by (rule mcar_ignores_missing_column)

subsection \<open>C10: an unsupported method\<close>

text \<open>
  C10. For a \<open>method\<close> other than \<^verbatim>\<open>'linear'\<close> and \<^verbatim>\<open>'quadratic'\<close> and a requested
  count \<^verbatim>\<open>round(p_missing * n) > 0\<close>, \<^verbatim>\<open>create_mar_column\<close> and
  \<^verbatim>\<open>create_nmar_column\<close> raise and return no column: the index list is unbound when the
  final comprehension reads it (a \<^verbatim>\<open>NameError\<close>), unless the seed was already rejected
  (a \<^verbatim>\<open>ValueError\<close>).
\<close>

theorem unsupported_method_raises:
  assumes "method \<noteq> ''linear''" and "method \<noteq> ''quadratic''"
    and "0 < requested_count df p_missing"
  shows
    "create_mar_column R df missing_column depends_on method p_missing random_state g
       = Some (if 0 \<le> random_state \<and> random_state < 2 ^ 32
               then (Inl NameError, np_seed R random_state) else (Inl ValueError, g)) \<and>
     create_nmar_column R df missing_column method p_missing random_state g
       = Some (if 0 \<le> random_state \<and> random_state < 2 ^ 32
               then (Inl NameError, np_seed R random_state) else (Inl ValueError, g))"
proof -
  from assms(3) requested_count_empty [of df p_missing] have "nrows df \<noteq> 0" by auto
  with assms(1,2) show ?thesis
    by (simp add: create_mar_column_def create_nmar_column_def np_random_seed_def)
qed

theorem unsupported_method_raises_witness:
  "create_mar_column counter_random table4 ''income'' ''age'' ''cubic'' (1 / 2) 42 0
     = Some (Inl NameError, 42) \<and>
   create_nmar_column counter_random table4 ''income'' ''cubic'' (1 / 2) 42 0
     = Some (Inl NameError, 42)"
proof -
  have k: "0 < requested_count table4 (1 / 2)" by code_simp
  have m: "''cubic'' \<noteq> ''linear''" "''cubic'' \<noteq> ''quadratic''" by simp_all
  from unsupported_method_raises [OF m k, where R = counter_random and random_state = 42
      and missing_column = "''income''" and depends_on = "''age''" and g = 0]
  show ?thesis by (simp add: counter_seed)
qed

section \<open>Properties of the imputers\<close>

subsection \<open>Reading a well-formed table\<close>

lemma collect_total:
  "(\<And>x. x \<in> set xs \<Longrightarrow> f x = Inr (h x)) \<Longrightarrow> collect f xs = Inr (map h xs)"
  by (induction xs) simp_all

lemma collect_length: "collect f xs = Inr ys \<Longrightarrow> length ys = length xs"
  by (induction xs arbitrary: ys) (auto split: sum.splits)

lemma wf_df_column_length:
  assumes "wf_df df" and "df_col df c = Inr xs"
  shows "length xs = nrows df"
proof -
  from assms(2) have "map_of (columns df) c = Some xs"
    by (simp add: df_col_def split: option.splits)
  then have "(c, xs) \<in> set (columns df)" by (rule map_of_SomeD)
  with assms(1) show ?thesis by (auto simp: wf_df_def list_all_iff)
qed

lemma df_loc_cell:
  assumes "wf_df df" and "df_col df c = Inr xs" and "i < nrows df"
  shows "df_loc df i c = Inr (xs ! i)"
proof -
  from assms(2) have "map_of (columns df) c = Some xs"
    by (simp add: df_col_def split: option.splits)
  moreover from wf_df_column_length [OF assms(1,2)] assms(3) have "i < length xs" by simp
  ultimately show ?thesis by (simp add: df_loc_def)
qed

subsection \<open>What the imputers return\<close>

lemma impute_entry_value:
  assumes "wf_df df" and "df_col df impute_column = Inr xs"
    and "df_col df missingness_column = Inr ind" and "i < nrows df" and "stat xs = Inr v"
  shows "impute_entry stat df impute_column missingness_column i
           = Inr (if ind ! i = 0 then xs ! i else v)"
  using assms
  by (simp add: impute_entry_def df_loc_cell [OF assms(1,2,4)] df_loc_cell [OF assms(1,3,4)])

lemma impute_collect:
  assumes "wf_df df" and "df_col df impute_column = Inr xs"
    and "df_col df missingness_column = Inr ind" and "xs \<noteq> [] \<Longrightarrow> stat xs = Inr v"
  shows "collect (impute_entry stat df impute_column missingness_column) [0..<nrows df]
           = Inr (imputed_column xs ind v (nrows df))"
  unfolding imputed_column_def
proof (rule collect_total)
  fix i assume "i \<in> set [0..<nrows df]"
  then have i: "i < nrows df" by simp
  with wf_df_column_length [OF assms(1,2)] have "xs \<noteq> []" by auto
  then have "stat xs = Inr v" by (rule assms(4))
  from impute_entry_value [where stat = stat, OF assms(1,2,3) i this]
  show "impute_entry stat df impute_column missingness_column i
           = Inr (if ind ! i = 0 then xs ! i else v)" .
qed

lemma stats_mode_nonempty: "xs \<noteq> [] \<Longrightarrow> stats_mode xs = Inr (mode_value xs)"
  by (simp add: stats_mode_def mode_value_def)

lemma impute_mean_eq:
  assumes "wf_df df" and "df_col df impute_column = Inr xs"
    and "df_col df missingness_column = Inr ind"
  shows "impute_mean df impute_column missingness_column
           = Inr (imputed_column xs ind (np_mean xs) (nrows df))"
  unfolding impute_mean_def by (rule impute_collect [OF assms]) simp

lemma impute_median_eq:
  assumes "wf_df df" and "df_col df impute_column = Inr xs"
    and "df_col df missingness_column = Inr ind"
  shows "impute_median df impute_column missingness_column
           = Inr (imputed_column xs ind (np_median xs) (nrows df))"
  unfolding impute_median_def by (rule impute_collect [OF assms]) simp

lemma impute_mode_eq:
  assumes "wf_df df" and "df_col df impute_column = Inr xs"
    and "df_col df missingness_column = Inr ind"
  shows "impute_mode df impute_column missingness_column
           = Inr (imputed_column xs ind (mode_value xs) (nrows df))"
  unfolding impute_mode_def by (rule impute_collect [OF assms]) (rule stats_mode_nonempty)

subsection \<open>Evaluation on the example tables\<close>

lemma wf_table_skew: "wf_df table_skew"
  by (simp add: wf_df_def table_skew_def)

lemma skew_age: "df_col table_skew ''age'' = Inr [1, 1, 9, 9, 9]"
  by (simp add: df_col_def table_skew_def)

lemma skew_ind: "df_col table_skew ''age_missingness'' = Inr [0, 0, 1, 1, 0]"
  by (simp add: df_col_def table_skew_def)

lemma skew_stats:
  "np_mean [1, 1, 9, 9, 9] = 29 / 5" "np_median [1, 1, 9, 9, 9] = 9"
  "stats_mode [1, 1, 9, 9, 9] = Inr 9"
  by (simp_all add: np_mean_def np_median_def stats_mode_def mode_step_def)

lemma skew_observed:
  "np_mean (observed_values [1, 1, 9, 9, 9] [0, 0, 1, 1, 0]) = 11 / 3"
  "np_median (observed_values [1, 1, 9, 9, 9] [0, 0, 1, 1, 0]) = 1"
  "stats_mode (observed_values [1, 1, 9, 9, 9] [0, 0, 1, 1, 0]) = Inr 1"
  by (simp_all add: np_mean_def np_median_def stats_mode_def mode_step_def
      observed_values_def)

lemma skew_mean_imputed:
  "impute_mean table_skew ''age'' ''age_missingness'' = Inr [1, 1, 29 / 5, 29 / 5, 9]"
  by (simp add: impute_mean_def impute_entry_def df_loc_def df_col_def table_skew_def
      np_mean_def upt_rec)

lemma var_median_imputed:
  "impute_median table_var ''age'' ''age_missingness'' = Inr [0, 0, 0, 0, 4]"
  by (simp add: impute_median_def impute_entry_def df_loc_def df_col_def table_var_def
      np_median_def upt_rec)

lemma var_mode_imputed:
  "impute_mode table_var ''age'' ''age_missingness'' = Inr [0, 0, 0, 0, 4]"
  by (simp add: impute_mode_def impute_entry_def df_loc_def df_col_def table_var_def
      stats_mode_def mode_step_def upt_rec)

lemma var_values:
  "np_var_ddof1 [0, 0, 0, 1, 4] = 3" "np_var_ddof1 [0, 0, 0, 0, 4] = 16 / 5"
  by (simp_all add: np_var_ddof1_def np_mean_def sum_sq_dev_def)

subsection \<open>C3: observed entries stay, flagged entries get the statistic\<close>

text \<open>
  C3. On a table \<open>df\<close> that has the column to impute, \<open>xs\<close>, and the indicator column,
  \<open>ind\<close>, each of \<^verbatim>\<open>impute_mean\<close>, \<^verbatim>\<open>impute_median\<close> and \<^verbatim>\<open>impute_mode\<close> returns a
  list of length \<^verbatim>\<open>df.shape[0]\<close>. A row whose indicator is 0 keeps its stored value; a
  row whose indicator is not 0, in particular one whose indicator is 1, holds the mean,
  the median or the mode of the column, the same value for every such row of a call.
\<close>

theorem single_value_imputation:
  assumes "wf_df df" and "df_col df impute_column = Inr xs"
    and "df_col df missingness_column = Inr ind"
  shows "\<exists>ym yd yo.
           impute_mean df impute_column missingness_column = Inr ym \<and>
           impute_median df impute_column missingness_column = Inr yd \<and>
           impute_mode df impute_column missingness_column = Inr yo \<and>
           length ym = nrows df \<and> length yd = nrows df \<and> length yo = nrows df \<and>
           (\<forall>i<nrows df.
              (ind ! i = 0 \<longrightarrow> ym ! i = xs ! i \<and> yd ! i = xs ! i \<and> yo ! i = xs ! i) \<and>
              (ind ! i \<noteq> 0 \<longrightarrow>
                 ym ! i = np_mean xs \<and> yd ! i = np_median xs \<and>
                 stats_mode xs = Inr (yo ! i)))"
proof -
  have "\<forall>i<nrows df. ind ! i \<noteq> 0 \<longrightarrow> stats_mode xs = Inr (mode_value xs)"
    using wf_df_column_length [OF assms(1,2)] by (auto intro: stats_mode_nonempty)
  then show ?thesis
    by (simp add: impute_mean_eq [OF assms] impute_median_eq [OF assms]
        impute_mode_eq [OF assms] imputed_column_def)
qed

text \<open>
  On \<open>table_skew\<close>, whose rows 2 and 3 are flagged: rows 0, 1 and 4 keep 1, 1 and 9,
  and the flagged rows hold the mean 29/5, the median 9 and the mode 9.
\<close>

theorem single_value_imputation_witness:
  "wf_df table_skew \<and>
   (\<exists>ym yd yo.
      impute_mean table_skew ''age'' ''age_missingness'' = Inr ym \<and>
      impute_median table_skew ''age'' ''age_missingness'' = Inr yd \<and>
      impute_mode table_skew ''age'' ''age_missingness'' = Inr yo \<and>
      length ym = 5 \<and> length yd = 5 \<and> length yo = 5 \<and>
      ym ! 0 = 1 \<and> yd ! 1 = 1 \<and> yo ! 4 = 9 \<and>
      ym ! 2 = 29 / 5 \<and> ym ! 3 = 29 / 5 \<and> yd ! 2 = 9 \<and> yd ! 3 = 9 \<and>
      yo ! 2 = 9 \<and> yo ! 3 = 9)"
proof -
  have n: "nrows table_skew = 5" by (simp add: table_skew_def)
  from single_value_imputation [OF wf_table_skew skew_age skew_ind]
  obtain ym yd yo where
    em: "impute_mean table_skew ''age'' ''age_missingness'' = Inr ym" and
    ed: "impute_median table_skew ''age'' ''age_missingness'' = Inr yd" and
    eo: "impute_mode table_skew ''age'' ''age_missingness'' = Inr yo" and
    len: "length ym = nrows table_skew" "length yd = nrows table_skew"
      "length yo = nrows table_skew" and
    a: "\<forall>i<nrows table_skew.
        ([0, 0, 1, 1, 0] ! i = (0::rat) \<longrightarrow>
           ym ! i = [1, 1, 9, 9, 9] ! i \<and> yd ! i = [1, 1, 9, 9, 9] ! i \<and>
           yo ! i = [1, 1, 9, 9, 9] ! i) \<and>
        ([0, 0, 1, 1, 0] ! i \<noteq> (0::rat) \<longrightarrow>
           ym ! i = np_mean [1, 1, 9, 9, 9] \<and> yd ! i = np_median [1, 1, 9, 9, 9] \<and>
           stats_mode [1, 1, 9, 9, 9] = Inr (yo ! i))"
    by (elim exE conjE)
  have i: "0 < nrows table_skew" "1 < nrows table_skew" "2 < nrows table_skew"
    "3 < nrows table_skew" "4 < nrows table_skew" by (simp_all add: n)
  from a [rule_format, OF i(1)] have r0: "ym ! 0 = 1" by simp
  from a [rule_format, OF i(2)] have r1: "yd ! 1 = 1" by simp
  from a [rule_format, OF i(3)] have r2: "ym ! 2 = 29 / 5" "yd ! 2 = 9" "yo ! 2 = 9"
    by (simp_all add: skew_stats)
  from a [rule_format, OF i(4)] have r3: "ym ! 3 = 29 / 5" "yd ! 3 = 9" "yo ! 3 = 9"
    by (simp_all add: skew_stats)
  from a [rule_format, OF i(5)] have r4: "yo ! 4 = 9" by simp
  from em ed eo len r0 r1 r2 r3 r4 wf_table_skew show ?thesis by (simp add: n)
qed

subsection \<open>C9: the statistic is taken over the whole stored column\<close>

text \<open>
  C9. In \<^verbatim>\<open>impute_mean\<close>, \<^verbatim>\<open>impute_median\<close> and \<^verbatim>\<open>impute_mode\<close> the value written
  into a flagged row is the statistic of the entire stored column, the flagged rows
  included, and not of the observed rows alone; so whenever the two statistics differ,
  the imputed value differs from the statistic of the observed rows.
\<close>

theorem statistic_over_whole_column:
  assumes "wf_df df" and "df_col df impute_column = Inr xs"
    and "df_col df missingness_column = Inr ind"
    and "i < nrows df" and "ind ! i \<noteq> 0"
  shows "\<exists>ym yd yo.
           impute_mean df impute_column missingness_column = Inr ym \<and>
           impute_median df impute_column missingness_column = Inr yd \<and>
           impute_mode df impute_column missingness_column = Inr yo \<and>
           ym ! i = np_mean xs \<and> yd ! i = np_median xs \<and> stats_mode xs = Inr (yo ! i) \<and>
           (np_mean xs \<noteq> np_mean (observed_values xs ind) \<longrightarrow>
              ym ! i \<noteq> np_mean (observed_values xs ind)) \<and>
           (np_median xs \<noteq> np_median (observed_values xs ind) \<longrightarrow>
              yd ! i \<noteq> np_median (observed_values xs ind)) \<and>
           (stats_mode xs \<noteq> stats_mode (observed_values xs ind) \<longrightarrow>
              Inr (yo ! i) \<noteq> stats_mode (observed_values xs ind))"
proof -
  from assms(4) wf_df_column_length [OF assms(1,2)] have "xs \<noteq> []" by auto
  then have "stats_mode xs = Inr (mode_value xs)" by (rule stats_mode_nonempty)
  then show ?thesis using assms(4,5)
    by (simp add: impute_mean_eq [OF assms(1,2,3)] impute_median_eq [OF assms(1,2,3)]
        impute_mode_eq [OF assms(1,2,3)] imputed_column_def)
qed

text \<open>
  On \<open>table_skew\<close> the flagged rows hold 9 twice. The whole column has mean 29/5,
  median 9 and mode 9; the observed rows alone have mean 11/3, median 1 and mode 1. Row 2
  gets the former.
\<close>

theorem statistic_over_whole_column_witness:
  "wf_df table_skew \<and>
   np_mean (observed_values [1, 1, 9, 9, 9] [0, 0, 1, 1, 0]) = 11 / 3 \<and>
   np_median (observed_values [1, 1, 9, 9, 9] [0, 0, 1, 1, 0]) = 1 \<and>
   stats_mode (observed_values [1, 1, 9, 9, 9] [0, 0, 1, 1, 0]) = Inr 1 \<and>
   (\<exists>ym yd yo.
      impute_mean table_skew ''age'' ''age_missingness'' = Inr ym \<and>
      impute_median table_skew ''age'' ''age_missingness'' = Inr yd \<and>
      impute_mode table_skew ''age'' ''age_missingness'' = Inr yo \<and>
      ym ! 2 = 29 / 5 \<and> yd ! 2 = 9 \<and> yo ! 2 = 9 \<and>
      ym ! 2 \<noteq> 11 / 3 \<and> yd ! 2 \<noteq> 1 \<and> yo ! 2 \<noteq> 1)"
proof -
  have i: "2 < nrows table_skew" by (simp add: table_skew_def)
  have f: "[0, 0, 1, 1, 0] ! 2 \<noteq> (0::rat)" by simp
  from statistic_over_whole_column [OF wf_table_skew skew_age skew_ind i f]
  obtain ym yd yo where
    em: "impute_mean table_skew ''age'' ''age_missingness'' = Inr ym" and
    ed: "impute_median table_skew ''age'' ''age_missingness'' = Inr yd" and
    eo: "impute_mode table_skew ''age'' ''age_missingness'' = Inr yo" and
    v: "ym ! 2 = np_mean [1, 1, 9, 9, 9]" "yd ! 2 = np_median [1, 1, 9, 9, 9]"
      "stats_mode [1, 1, 9, 9, 9] = Inr (yo ! 2)" and
    d: "np_mean [1, 1, 9, 9, 9] \<noteq> np_mean (observed_values [1, 1, 9, 9, 9] [0, 0, 1, 1, 0])
          \<longrightarrow> ym ! 2 \<noteq> np_mean (observed_values [1, 1, 9, 9, 9] [0, 0, 1, 1, 0])"
      "np_median [1, 1, 9, 9, 9]
            \<noteq> np_median (observed_values [1, 1, 9, 9, 9] [0, 0, 1, 1, 0])
          \<longrightarrow> yd ! 2 \<noteq> np_median (observed_values [1, 1, 9, 9, 9] [0, 0, 1, 1, 0])"
      "stats_mode [1, 1, 9, 9, 9]
            \<noteq> stats_mode (observed_values [1, 1, 9, 9, 9] [0, 0, 1, 1, 0])
          \<longrightarrow> Inr (yo ! 2) \<noteq> stats_mode (observed_values [1, 1, 9, 9, 9] [0, 0, 1, 1, 0])"
    by (elim exE conjE)
  from v have v': "ym ! 2 = 29 / 5" "yd ! 2 = 9" "yo ! 2 = 9" by (simp_all add: skew_stats)
  from d have d': "ym ! 2 \<noteq> 11 / 3" "yd ! 2 \<noteq> 1" "yo ! 2 \<noteq> 1"
    by (simp_all add: skew_stats skew_observed)
  from em ed eo v' d' wf_table_skew skew_observed show ?thesis by simp
qed

subsection \<open>C7: standard deviation after imputation\<close>

lemma sum_sq_dev_expand:
  "sum_sq_dev c ys
     = (\<Sum>y\<leftarrow>ys. y * y) - 2 * c * sum_list ys + of_nat (length ys) * (c * c)"
  unfolding sum_sq_dev_def by (induction ys) (simp_all add: algebra_simps)

text \<open>The squared deviations around any point exceed those around the mean.\<close>

lemma sum_sq_dev_shift:
  assumes "ys \<noteq> []"
  shows "sum_sq_dev c ys
           = sum_sq_dev (np_mean ys) ys
             + of_nat (length ys) * ((np_mean ys - c) * (np_mean ys - c))"
proof -
  let ?n = "of_nat (length ys) :: rat"
  from assms have n: "?n \<noteq> 0" by simp
  then have s: "sum_list ys = ?n * np_mean ys" by (simp add: np_mean_def)
  show ?thesis
    unfolding sum_sq_dev_expand s by (simp add: algebra_simps)
qed

lemma sum_sq_dev_mean_least: "sum_sq_dev (np_mean ys) ys \<le> sum_sq_dev c ys"
proof (cases "ys = []")
  case True
  then show ?thesis by (simp add: sum_sq_dev_def)
next
  case False
  have "0 \<le> (np_mean ys - c) * (np_mean ys - c)" by (rule zero_le_square)
  then have "0 \<le> (of_nat (length ys) :: rat) * ((np_mean ys - c) * (np_mean ys - c))"
    by (rule mult_nonneg_nonneg [OF of_nat_0_le_iff])
  with sum_sq_dev_shift [OF False, of c] show ?thesis by simp
qed

text \<open>An entry replaced by \<open>v\<close> adds nothing to the squared deviations around \<open>v\<close>.\<close>

lemma sum_sq_dev_imputed:
  assumes "length xs = n"
  shows "sum_sq_dev v (imputed_column xs ind v n) \<le> sum_sq_dev v xs"
proof -
  have xs: "xs = map (\<lambda>i. xs ! i) [0..<n]"
    using assms map_nth [of xs] by simp
  have "sum_sq_dev v (imputed_column xs ind v n)
          = (\<Sum>i\<leftarrow>[0..<n]. ((if ind ! i = 0 then xs ! i else v) - v)
                                 * ((if ind ! i = 0 then xs ! i else v) - v))"
    by (simp add: sum_sq_dev_def imputed_column_def comp_def)
  also have "\<dots> \<le> (\<Sum>i\<leftarrow>[0..<n]. (xs ! i - v) * (xs ! i - v))"
    by (rule sum_list_mono) simp
  also have "\<dots> = sum_sq_dev v (map (\<lambda>i. xs ! i) [0..<n])"
    by (simp add: sum_sq_dev_def comp_def)
  finally show ?thesis using xs by simp
qed

lemma var_imputed_mean_le:
  assumes "length xs = n"
  shows "np_var_ddof1 (imputed_column xs ind (np_mean xs) n) \<le> np_var_ddof1 xs"
proof -
  let ?ys = "imputed_column xs ind (np_mean xs) n"
  have len: "length ?ys = length xs" using assms by (simp add: imputed_column_def)
  have "sum_sq_dev (np_mean ?ys) ?ys \<le> sum_sq_dev (np_mean xs) ?ys"
    by (rule sum_sq_dev_mean_least)
  also have "\<dots> \<le> sum_sq_dev (np_mean xs) xs"
    by (rule sum_sq_dev_imputed [OF assms])
  finally show ?thesis
    unfolding np_var_ddof1_def len by (rule divide_right_mono) simp
qed

text \<open>
  The claim as it is written fails for the median and for the mode. In \<open>table_var\<close> the
  true column is 0, 0, 0, 1, 4 and the flagged row holds 1, the mean of the column.
  Median and mode are both 0, the imputed column is 0, 0, 0, 0, 4 with sample variance
  16/5, above the sample variance 3 of the true column.
\<close>

theorem imputation_shrinks_std_counterexample:
  "impute_median table_var ''age'' ''age_missingness'' = Inr [0, 0, 0, 0, 4] \<and>
   impute_mode table_var ''age'' ''age_missingness'' = Inr [0, 0, 0, 0, 4] \<and>
   df_col table_var ''age'' = Inr [0, 0, 0, 1, 4] \<and>
   np_std_ddof1 [0, 0, 0, 1, 4] < np_std_ddof1 [0, 0, 0, 0, 4]"
proof -
  have x: "df_col table_var ''age'' = Inr [0, 0, 0, 1, 4]"
    by (simp add: df_col_def table_var_def)
  have "np_std_ddof1 [0, 0, 0, 1, 4] < np_std_ddof1 [0, 0, 0, 0, 4]"
    unfolding np_std_ddof1_def var_values by (simp add: of_rat_divide)
  with var_median_imputed var_mode_imputed x show ?thesis by simp
qed

text \<open>
  C7, as amended. For \<^verbatim>\<open>impute_mean\<close>, on a table of at least two rows that has the
  column \<open>xs\<close> and the indicator column, the sample standard deviation (divisor
  \<open>n - 1\<close>) of the returned column is at most the sample standard deviation of \<open>xs\<close>,
  the true fully observed column. (In exact arithmetic; for the median and the mode it
  can be larger.)
\<close>

theorem mean_imputation_shrinks_std:
  assumes "wf_df df" and "df_col df impute_column = Inr xs"
    and "df_col df missingness_column = Inr ind" and "2 \<le> nrows df"
  shows "\<exists>ys. impute_mean df impute_column missingness_column = Inr ys \<and>
           np_std_ddof1 ys \<le> np_std_ddof1 xs"
proof -
  from var_imputed_mean_le [OF wf_df_column_length [OF assms(1,2)]]
  have "np_std_ddof1 (imputed_column xs ind (np_mean xs) (nrows df)) \<le> np_std_ddof1 xs"
    by (simp add: np_std_ddof1_def of_rat_less_eq)
  then show ?thesis by (simp add: impute_mean_eq [OF assms(1,2,3)])
qed

theorem mean_imputation_shrinks_std_witness:
  "wf_df table_skew \<and>
   impute_mean table_skew ''age'' ''age_missingness'' = Inr [1, 1, 29 / 5, 29 / 5, 9] \<and>
   np_std_ddof1 [1, 1, 29 / 5, 29 / 5, 9] \<le> np_std_ddof1 [1, 1, 9, 9, 9]"
proof -
  have n: "2 \<le> nrows table_skew" by (simp add: table_skew_def)
  from mean_imputation_shrinks_std [OF wf_table_skew skew_age skew_ind n] skew_mean_imputed
  have "np_std_ddof1 [1, 1, 29 / 5, 29 / 5, 9] \<le> np_std_ddof1 [1, 1, 9, 9, 9]" by simp
  with wf_table_skew skew_mean_imputed show ?thesis by simp
qed

section \<open>Properties of regression imputation\<close>

subsection \<open>C4: the columns that regression imputation reads\<close>

text \<open>
  C4 asks that \<^verbatim>\<open>regression_imputation\<close> work on the columns it is given. The source
  reads \<^verbatim>\<open>'age'\<close>, \<^verbatim>\<open>'age_missingness'\<close> and the three features of the notebook inside its
  comprehension instead. Asked to impute \<^verbatim>\<open>'height'\<close> with the indicator
  \<^verbatim>\<open>'height_missingness'\<close>, whose row 1 is flagged, it returns the column \<^verbatim>\<open>'age'\<close>
  (no row of \<^verbatim>\<open>'age_missingness'\<close> is flagged): neither 150 and 170 for the observed rows
  nor a prediction of the height for row 1.
\<close>

theorem regression_imputation_reads_age:
  "regression_imputation baseline_estimator table_heights ''height''
     [''children'', ''partnered'', ''income''] ''height_missingness'' ''linear''
   = Inr [30, 40, 50] \<and>
   df_col table_heights ''height'' = Inr [150, 160, 170] \<and>
   df_col table_heights ''height_missingness'' = Inr [0, 1, 0]"
proof -
  have "regression_imputation baseline_estimator table_heights ''height''
     [''children'', ''partnered'', ''income''] ''height_missingness'' ''linear''
   = Inr [30, 40, 50]"
    by code_simp
  then show ?thesis by (simp add: df_col_def table_heights_def)
qed

subsection \<open>C6: regression imputation with no observed row\<close>

text \<open>
  C6 asks that \<^verbatim>\<open>regression_imputation\<close> fail explicitly, returning no column, when
  fewer than two rows of the target are observed. Its docstring says that it "fits
  regression line to observed data", and a fit on no row is refused by the estimator.
  The source fits on \<^verbatim>\<open>df[X_columns]\<close> and \<^verbatim>\<open>df[impute_column]\<close>, every row of the
  table, instead. In \<open>table_unobserved\<close> both rows are flagged, so the observed part of
  \<^verbatim>\<open>'age'\<close> is empty, and yet the call, made with the very columns the source reads,
  returns a column of predictions. (The target is constant, so the least-squares fit
  predicts that constant, as the stand-in estimator does.)
\<close>

theorem regression_imputation_fits_unobserved_rows:
  "regression_imputation baseline_estimator table_unobserved ''age''
     [''children'', ''partnered'', ''income''] ''age_missingness'' ''linear''
   = Inr [30, 30] \<and>
   df_col table_unobserved ''age'' = Inr [30, 30] \<and>
   df_col table_unobserved ''age_missingness'' = Inr [1, 1] \<and>
   observed_values [30, 30] [1, 1] = [] \<and>
   est_fit baseline_estimator LinearRegression [] [] = Inl ValueError"
proof -
  have "regression_imputation baseline_estimator table_unobserved ''age''
     [''children'', ''partnered'', ''income''] ''age_missingness'' ''linear''
   = Inr [30, 30]"
    by code_simp
  moreover have "observed_values [30, 30] [1, 1] = []"
    by (simp add: observed_values_def)
  moreover have "est_fit baseline_estimator LinearRegression [] [] = Inl ValueError"
    by (simp add: baseline_estimator_def)
  ultimately show ?thesis by (simp add: df_col_def table_unobserved_def)
qed

end
